theory Spec2Isabelle
  imports Complex_Main "HOL-Library.Finite_Map"
begin

section \<open>Data model\<close>

text \<open>
  The module \<^verbatim>\<open>Brute_Force_RCS/evaluation_utils.py\<close> works on probability
  distributions: Python dictionaries from basis states (bitstrings) to floats. A
  dictionary is a finite map here; \<open>fmdom d\<close> is \<^verbatim>\<open>set(d.keys())\<close>.

  Probabilities are real numbers: Python's floats without rounding, infinities and NaN.
  Every statement below is about this exact arithmetic, in which the order a sum is
  taken in does not matter.
\<close>

type_synonym distribution = "(string, real) fmap"

text \<open>The exceptions of the module, as values.\<close>

datatype error = ValueError | KeyError | IndexError | OverflowError | ExternalError string

text \<open>\<^verbatim>\<open>d[key]\<close> raises \<^verbatim>\<open>KeyError\<close> for a missing key.\<close>

definition getitem :: "distribution \<Rightarrow> string \<Rightarrow> error + real" where
  "getitem d key = (case fmlookup d key of None \<Rightarrow> Inl KeyError | Some p \<Rightarrow> Inr p)"

text \<open>\<^verbatim>\<open>d.get(key, default)\<close> never raises.\<close>

definition get_default :: "distribution \<Rightarrow> string \<Rightarrow> real \<Rightarrow> real" where
  "get_default d key dflt = (case fmlookup d key of None \<Rightarrow> dflt | Some p \<Rightarrow> p)"

definition bind_err :: "error + 'a \<Rightarrow> ('a \<Rightarrow> error + 'b) \<Rightarrow> error + 'b" where
  "bind_err r f = (case r of Inl e \<Rightarrow> Inl e | Inr x \<Rightarrow> f x)"

text \<open>
  \<^verbatim>\<open>sum(summand(key) for key in keys)\<close> over a collection of distinct keys. The only
  operation of the module that can raise inside such a generator is a dictionary
  subscript, so a failing summand makes the whole sum raise \<^verbatim>\<open>KeyError\<close>.
\<close>

definition sum_gen :: "string fset \<Rightarrow> (string \<Rightarrow> error + real) \<Rightarrow> error + real" where
  "sum_gen ks summand =
     (if ffilter (\<lambda>key. isl (summand key)) ks = {||}
      then Inr (\<Sum>key\<in>fset ks. projr (summand key))
      else Inl KeyError)"

text \<open>\<^verbatim>\<open>sum(distribution.values())\<close>: one value per key.\<close>

definition sum_values :: "distribution \<Rightarrow> real" where
  "sum_values d = (\<Sum>key\<in>fset (fmdom d). get_default d key 0)"

section \<open>Divergence metrics\<close>

text \<open>
  \<^verbatim>\<open>
  def total_variation_distance(distribution1, distribution2):
      keys1 = set(distribution1.keys())
      keys2 = set(distribution2.keys())
      if keys1 != keys2:
          raise ValueError("Distributions must have the same basis states.")
      tvd = 0.5 * sum(np.abs(distribution1[key] - distribution2[key]) for key in keys1)
      return tvd
  \<close>
\<close>

definition total_variation_distance :: "distribution \<Rightarrow> distribution \<Rightarrow> error + real" where
  "total_variation_distance distribution1 distribution2 =
     (let keys1 = fmdom distribution1;
          keys2 = fmdom distribution2
      in if keys1 \<noteq> keys2 then Inl ValueError
         else bind_err
                (sum_gen keys1 (\<lambda>key.
                   bind_err (getitem distribution1 key) (\<lambda>p.
                   bind_err (getitem distribution2 key) (\<lambda>q. Inr \<bar>p - q\<bar>))))
                (\<lambda>s. Inr (0.5 * s)))"

text \<open>
  \<^verbatim>\<open>
  def compute_xeb(empirical_distribution, true_distribution, num_qubits):
      if set(empirical_distribution.keys()) != set(true_distribution.keys()):
          raise ValueError("Distributions must have the same basis states.")
      xeb_sum = sum(true_distribution[state] * empirical_distribution.get(state, 0)
                    for state in true_distribution.keys())
      xeb_score = (2 ** num_qubits) * xeb_sum - 1
      return xeb_score
  \<close>
  \<^verbatim>\<open>num_qubits\<close> is a Python int; \<^verbatim>\<open>2 ** num_qubits\<close> is \<open>1 / 2 ^ k\<close> for
  \<open>num_qubits = - k\<close>, which is what \<open>powi\<close> computes. For \<open>num_qubits \<ge> 0\<close> it is
  an int, and the product with the float \<^verbatim>\<open>xeb_sum\<close> converts it to a float first:
  from \<^verbatim>\<open>2 ** 1024\<close> on the conversion raises \<^verbatim>\<open>OverflowError\<close>. The sum of no
  term at all is the int \<^verbatim>\<open>0\<close>, and then nothing is converted.
\<close>

definition compute_xeb :: "distribution \<Rightarrow> distribution \<Rightarrow> int \<Rightarrow> error + real" where
  "compute_xeb empirical_distribution true_distribution num_qubits =
     (if fmdom empirical_distribution \<noteq> fmdom true_distribution then Inl ValueError
      else bind_err
             (sum_gen (fmdom true_distribution) (\<lambda>state.
                bind_err (getitem true_distribution state) (\<lambda>p.
                Inr (p * get_default empirical_distribution state 0))))
             (\<lambda>xeb_sum.
                if 1024 \<le> num_qubits \<and> fmdom true_distribution \<noteq> {||} then Inl OverflowError
                else Inr (2 powi num_qubits * xeb_sum - 1)))"

text \<open>The two metrics as the specification words them, for distributions over the same keys.\<close>

definition tvd_spec :: "distribution \<Rightarrow> distribution \<Rightarrow> real" where
  "tvd_spec a b = 0.5 * (\<Sum>key\<in>fset (fmdom a). \<bar>the (fmlookup a key) - the (fmlookup b key)\<bar>)"

definition xeb_spec :: "distribution \<Rightarrow> distribution \<Rightarrow> int \<Rightarrow> real" where
  "xeb_spec emp tru n =
     2 powi n * (\<Sum>key\<in>fset (fmdom tru).
        the (fmlookup tru key) * (case fmlookup emp key of None \<Rightarrow> 0 | Some q \<Rightarrow> q)) - 1"


section \<open>Distribution validator\<close>

text \<open>
  \<^verbatim>\<open>numpy.isclose(a, b)\<close> with numpy's default tolerances \<^verbatim>\<open>rtol=1e-05\<close> and
  \<^verbatim>\<open>atol=1e-08\<close>: documented as \<^verbatim>\<open>absolute(a - b) <= (atol + rtol * absolute(b))\<close>.
\<close>

definition rtol :: real where
  "rtol = 1 / 10 ^ 5"

definition atol :: real where
  "atol = 1 / 10 ^ 8"

definition isclose :: "real \<Rightarrow> real \<Rightarrow> bool" where
  "isclose a b \<longleftrightarrow> \<bar>a - b\<bar> \<le> atol + rtol * \<bar>b\<bar>"

text \<open>
  What the validator prints: the line
  \<^verbatim>\<open>Warning: Total probability is {total_probability}, not 1.0\<close>, kept as the
  number it reports.
\<close>

datatype printed = Warning_total real

text \<open>
  \<^verbatim>\<open>
  def check_distribution_normalization(distribution):
      total_probability = sum(distribution.values())
      if np.isclose(total_probability, 1.0):
          return True
      else:
          print(f"Warning: Total probability is {total_probability}, not 1.0")
          return False
  \<close>
  The model returns the result together with the lines printed. The function has no
  \<^verbatim>\<open>raise\<close> and no assignment to its argument, so there is no error branch and
  no updated dictionary to return.
\<close>

definition check_distribution_normalization :: "distribution \<Rightarrow> bool \<times> printed list" where
  "check_distribution_normalization distribution =
     (let total_probability = sum_values distribution
      in if isclose total_probability 1 then (True, [])
         else (False, [Warning_total total_probability]))"

section \<open>Circuits and the distribution builder\<close>

text \<open>
  A circuit is opaque to the module but for its qubit count and its measurements: a
  qubit count and the instructions in program order, each a gate on some qubits or the
  measurement of a qubit into a classical bit.
\<close>

datatype instruction = Gate string "nat list" | Measure nat nat

record circuit =
  qc_num_qubits :: nat
  qc_data :: "instruction list"

text \<open>
  Modelled from the spec: \<^verbatim>\<open>QuantumCircuit.remove_final_measurements\<close> is a method
  of the quantum library, not of this repository. The specification says that it
  "strips any final measurement operations" in place and that "removing already-absent
  measurements is a no-op". A measurement is final when no gate follows it on its
  qubit. \<open>strip_final\<close> walks the instructions from the last to the first, with the
  qubits that a later gate acts on.
\<close>

fun strip_final :: "nat list \<Rightarrow> instruction list \<Rightarrow> instruction list" where
  "strip_final busy [] = []"
| "strip_final busy (Gate g qs # rest) = Gate g qs # strip_final (qs @ busy) rest"
| "strip_final busy (Measure q c # rest) =
     (if q \<in> set busy then Measure q c # strip_final busy rest else strip_final busy rest)"

definition remove_final_measurements :: "circuit \<Rightarrow> circuit" where
  "remove_final_measurements qc = qc\<lparr>qc_data := rev (strip_final [] (rev (qc_data qc)))\<rparr>"

text \<open>
  Modelled from the spec: \<^verbatim>\<open>QuantumCircuit.measure_all\<close>, of the quantum library
  as well; the drivers use it to "re-add measurement operations to the circuit": one
  measurement per qubit, at the end.
\<close>

definition measure_all :: "circuit \<Rightarrow> circuit" where
  "measure_all qc = qc\<lparr>qc_data := qc_data qc @ map (\<lambda>q. Measure q q) [0..<qc_num_qubits qc]\<rparr>"

text \<open>
  \<^verbatim>\<open>format(i, f'0{num_qubits}b')\<close>: the binary digits of \<open>i\<close>, most significant
  first (a single \<^verbatim>\<open>0\<close> for zero), padded with zeros on the left to the width.
\<close>

definition bit_char :: "nat \<Rightarrow> char" where
  "bit_char b = (if b = 0 then CHR ''0'' else CHR ''1'')"

fun bin :: "nat \<Rightarrow> string" where
  "bin i = (if i < 2 then [bit_char i] else bin (i div 2) @ [bit_char (i mod 2)])"

definition format_0b :: "nat \<Rightarrow> nat \<Rightarrow> string" where
  "format_0b i width = replicate (width - length (bin i)) (CHR ''0'') @ bin i"

text \<open>
  \<^verbatim>\<open>
  basis_states = []
  for i in range(2 ** num_qubits):
      bitstring = format(i, f'0{num_qubits}b')
      basis_states.append(bitstring)
  \<close>
\<close>

definition basis_states_of :: "nat \<Rightarrow> string list" where
  "basis_states_of num_qubits = map (\<lambda>i. format_0b i num_qubits) [0..<2 ^ num_qubits]"

text \<open>
  The items of the comprehension
  \<^verbatim>\<open>{basis_states[i]: probabilities[i] for i in range(len(probabilities))}\<close>, in the
  order they are inserted in, which is the order a Python dictionary keeps.
\<close>

definition true_distribution_items :: "string list \<Rightarrow> real list \<Rightarrow> (string \<times> real) list" where
  "true_distribution_items basis_states probabilities =
     map (\<lambda>i. (basis_states ! i, probabilities ! i)) [0..<length probabilities]"

text \<open>A dictionary built from its items: they are stored in order, a later one overwriting.\<close>

definition dict_of_pairs :: "(string \<times> real) list \<Rightarrow> distribution" where
  "dict_of_pairs kvs = foldl (\<lambda>d (k, v). fmupd k v d) fmempty kvs"

text \<open>
  \<^verbatim>\<open>
  def calculate_true_distribution(qc):
      qc.remove_final_measurements()
      statevector = Statevector(qc)
      probabilities = statevector.probabilities()
      num_qubits = qc.num_qubits
      basis_states = [...]
      true_distribution = {
          basis_states[i]: probabilities[i] for i in range(len(probabilities))
      }
      return true_distribution
  \<close>
  The simulation \<^verbatim>\<open>Statevector(qc).probabilities()\<close> belongs to the quantum
  library: it is the parameter \<open>statevector_probabilities\<close>, which may raise. The
  circuit is mutated in place, so the model returns the circuit as the caller sees it
  afterwards beside the result, also when the simulation raises.
  \<^verbatim>\<open>basis_states[i]\<close> raises \<^verbatim>\<open>IndexError\<close> if there are more probabilities than
  basis states.
\<close>

definition calculate_true_distribution ::
  "(circuit \<Rightarrow> error + real list) \<Rightarrow> circuit \<Rightarrow> (error + distribution) \<times> circuit" where
  "calculate_true_distribution statevector_probabilities qc =
     (let qc' = remove_final_measurements qc
      in case statevector_probabilities qc' of
           Inl e \<Rightarrow> (Inl e, qc')
         | Inr probabilities \<Rightarrow>
             (let num_qubits = qc_num_qubits qc';
                  basis_states = basis_states_of num_qubits
              in if length basis_states < length probabilities then (Inl IndexError, qc')
                 else (Inr (dict_of_pairs (true_distribution_items basis_states probabilities)),
                       qc')))"

text \<open>The key of a bitstring read back as a binary numeral.\<close>

definition bits_value :: "string \<Rightarrow> nat" where
  "bits_value s = foldl (\<lambda>v c. 2 * v + (if c = CHR ''1'' then 1 else 0)) 0 s"

definition is_bitstring :: "string \<Rightarrow> bool" where
  "is_bitstring s \<longleftrightarrow> list_all (\<lambda>c. c = CHR ''0'' \<or> c = CHR ''1'') s"

text \<open>A simulator for the circuit without qubits: its state has the single amplitude 1.\<close>

definition zero_qubit_simulator :: "circuit \<Rightarrow> error + real list" where
  "zero_qubit_simulator qc = Inr [1]"

section \<open>Benchmark drivers\<close>

text \<open>
  The drivers call three functions of the module \<^verbatim>\<open>circuit_utils\<close>, which draw
  random numbers: they are parameters here, each taking and returning the state \<open>'w\<close>
  of the world they act on (the random generators), and each may raise. The noise
  model is opaque (\<open>'nm\<close>); \<^verbatim>\<open>depth=None\<close> is \<open>None\<close>.
\<close>

record ('nm, 'w) collaborators =
  random_circuit :: "int \<Rightarrow> int option \<Rightarrow> 'w \<Rightarrow> error + circuit \<times> 'w"
  create_noise_model :: "real \<Rightarrow> 'w \<Rightarrow> error + 'nm \<times> 'w"
  generate_emp_distribution ::
    "circuit \<Rightarrow> int \<Rightarrow> 'nm \<Rightarrow> int option \<Rightarrow> 'w \<Rightarrow> error + distribution \<times> 'w"
  statevector_probabilities :: "circuit \<Rightarrow> error + real list"

text \<open>
  \<^verbatim>\<open>
  def tvd_truedist_empdist(num_qubits, noise_rate, shots, depth=None):
      qc = random_circuit(num_qubits, depth)
      true_dist = calculate_true_distribution(qc)
      qc.measure_all()
      noise = create_noise_model(noise_rate)
      noisy_dist = generate_emp_distribution(qc, shots, noise, depth)
      TVD = total_variation_distance(noisy_dist, true_dist)
      return TVD
  \<close>
\<close>

definition tvd_truedist_empdist ::
  "('nm, 'w) collaborators \<Rightarrow> int \<Rightarrow> real \<Rightarrow> int \<Rightarrow> int option \<Rightarrow> 'w \<Rightarrow> error + real \<times> 'w" where
  "tvd_truedist_empdist ext num_qubits noise_rate shots depth w =
     (case random_circuit ext num_qubits depth w of
        Inl e \<Rightarrow> Inl e
      | Inr (qc, w1) \<Rightarrow>
          (case calculate_true_distribution (statevector_probabilities ext) qc of
             (Inl e, qc1) \<Rightarrow> Inl e
           | (Inr true_dist, qc1) \<Rightarrow>
               (let qc2 = measure_all qc1
                in case create_noise_model ext noise_rate w1 of
                     Inl e \<Rightarrow> Inl e
                   | Inr (noise, w2) \<Rightarrow>
                       (case generate_emp_distribution ext qc2 shots noise depth w2 of
                          Inl e \<Rightarrow> Inl e
                        | Inr (noisy_dist, w3) \<Rightarrow>
                            (case total_variation_distance noisy_dist true_dist of
                               Inl e \<Rightarrow> Inl e
                             | Inr TVD \<Rightarrow> Inr (TVD, w3))))))"

text \<open>
  \<^verbatim>\<open>
  def xeb_truedist_empdist_noisy(num_qubits, noise_rate, shots, depth=None):
      qc = random_circuit(num_qubits, depth)
      true_dist = calculate_true_distribution(qc)
      qc.measure_all()
      noise = create_noise_model(noise_rate)
      noisy_dist = generate_emp_distribution(qc, shots, noise, depth)
      XEB = compute_xeb(noisy_dist, true_dist, num_qubits)
      return XEB
  \<close>
\<close>

definition xeb_truedist_empdist_noisy ::
  "('nm, 'w) collaborators \<Rightarrow> int \<Rightarrow> real \<Rightarrow> int \<Rightarrow> int option \<Rightarrow> 'w \<Rightarrow> error + real \<times> 'w" where
  "xeb_truedist_empdist_noisy ext num_qubits noise_rate shots depth w =
     (case random_circuit ext num_qubits depth w of
        Inl e \<Rightarrow> Inl e
      | Inr (qc, w1) \<Rightarrow>
          (case calculate_true_distribution (statevector_probabilities ext) qc of
             (Inl e, qc1) \<Rightarrow> Inl e
           | (Inr true_dist, qc1) \<Rightarrow>
               (let qc2 = measure_all qc1
                in case create_noise_model ext noise_rate w1 of
                     Inl e \<Rightarrow> Inl e
                   | Inr (noise, w2) \<Rightarrow>
                       (case generate_emp_distribution ext qc2 shots noise depth w2 of
                          Inl e \<Rightarrow> Inl e
                        | Inr (noisy_dist, w3) \<Rightarrow>
                            (case compute_xeb noisy_dist true_dist num_qubits of
                               Inl e \<Rightarrow> Inl e
                             | Inr XEB \<Rightarrow> Inr (XEB, w3))))))"

text \<open>
  \<^verbatim>\<open>
  def xeb_truedist_empdist_ideal(num_qubits, noise_rate, shots, depth=None):
      qc = random_circuit(num_qubits, depth)
      true_dist = calculate_true_distribution(qc)
      qc.measure_all()
      noise = create_noise_model(0.0)  # Ideal case (no noise)
      noisy_dist = generate_emp_distribution(qc, shots, noise, depth)
      XEB = compute_xeb(noisy_dist, true_dist, num_qubits)
      return XEB
  \<close>
\<close>

definition xeb_truedist_empdist_ideal ::
  "('nm, 'w) collaborators \<Rightarrow> int \<Rightarrow> real \<Rightarrow> int \<Rightarrow> int option \<Rightarrow> 'w \<Rightarrow> error + real \<times> 'w" where
  "xeb_truedist_empdist_ideal ext num_qubits noise_rate shots depth w =
     (case random_circuit ext num_qubits depth w of
        Inl e \<Rightarrow> Inl e
      | Inr (qc, w1) \<Rightarrow>
          (case calculate_true_distribution (statevector_probabilities ext) qc of
             (Inl e, qc1) \<Rightarrow> Inl e
           | (Inr true_dist, qc1) \<Rightarrow>
               (let qc2 = measure_all qc1
                in case create_noise_model ext 0 w1 of
                     Inl e \<Rightarrow> Inl e
                   | Inr (noise, w2) \<Rightarrow>
                       (case generate_emp_distribution ext qc2 shots noise depth w2 of
                          Inl e \<Rightarrow> Inl e
                        | Inr (noisy_dist, w3) \<Rightarrow>
                            (case compute_xeb noisy_dist true_dist num_qubits of
                               Inl e \<Rightarrow> Inl e
                             | Inr XEB \<Rightarrow> Inr (XEB, w3))))))"

section \<open>The metrics: helper lemmas\<close>

lemma getitem_dom: "key |\<in>| fmdom d \<Longrightarrow> getitem d key = Inr (the (fmlookup d key))"
  by (auto simp: getitem_def elim: fmdomE)


lemma get_default_dom: "key |\<in>| fmdom d \<Longrightarrow> get_default d key x = the (fmlookup d key)"
  by (auto simp: get_default_def elim: fmdomE)

lemma sum_values_the: "sum_values d = (\<Sum>key\<in>fset (fmdom d). the (fmlookup d key))"
  unfolding sum_values_def by (intro sum.cong) (simp_all add: get_default_dom)

lemma sum_gen_Inr:
  assumes "\<And>key. key |\<in>| ks \<Longrightarrow> summand key = Inr (g key)"
  shows "sum_gen ks summand = Inr (\<Sum>key\<in>fset ks. g key)"
proof -
  have "ffilter (\<lambda>key. isl (summand key)) ks = {||}"
    using assms by auto
  moreover have "(\<Sum>key\<in>fset ks. projr (summand key)) = (\<Sum>key\<in>fset ks. g key)"
    using assms by (intro sum.cong) auto
  ultimately show ?thesis by (simp add: sum_gen_def)
qed

lemma tvd_eq_spec:
  assumes "fmdom a = fmdom b"
  shows "total_variation_distance a b = Inr (tvd_spec a b)"
proof -
  have "sum_gen (fmdom a) (\<lambda>key. bind_err (getitem a key) (\<lambda>p. bind_err (getitem b key) (\<lambda>q. Inr \<bar>p - q\<bar>)))
      = Inr (\<Sum>key\<in>fset (fmdom a). \<bar>the (fmlookup a key) - the (fmlookup b key)\<bar>)"
    using assms by (intro sum_gen_Inr) (simp add: getitem_dom bind_err_def)
  then show ?thesis using assms
    by (simp add: total_variation_distance_def tvd_spec_def bind_err_def)
qed

lemma xeb_eq_spec:
  assumes "fmdom e = fmdom t" and "n < 1024 \<or> fmdom t = {||}"
  shows "compute_xeb e t n = Inr (xeb_spec e t n)"
proof -
  have "sum_gen (fmdom t) (\<lambda>state. bind_err (getitem t state) (\<lambda>p. Inr (p * get_default e state 0)))
      = Inr (\<Sum>key\<in>fset (fmdom t). the (fmlookup t key) * (case fmlookup e key of None \<Rightarrow> 0 | Some q \<Rightarrow> q))"
    by (intro sum_gen_Inr) (simp add: getitem_dom bind_err_def get_default_def)
  then show ?thesis using assms
    by (auto simp: compute_xeb_def xeb_spec_def bind_err_def)
qed

lemma xeb_overflow:
  assumes "fmdom e = fmdom t" and "1024 \<le> n" and "fmdom t \<noteq> {||}"
  shows "compute_xeb e t n = Inl OverflowError"
proof -
  have "sum_gen (fmdom t) (\<lambda>state. bind_err (getitem t state) (\<lambda>p. Inr (p * get_default e state 0)))
      = Inr (\<Sum>key\<in>fset (fmdom t). the (fmlookup t key) * (case fmlookup e key of None \<Rightarrow> 0 | Some q \<Rightarrow> q))"
    by (intro sum_gen_Inr) (simp add: getitem_dom bind_err_def get_default_def)
  then show ?thesis using assms
    by (simp add: compute_xeb_def bind_err_def)
qed

lemma tvd_mismatch: "fmdom a \<noteq> fmdom b \<Longrightarrow> total_variation_distance a b = Inl ValueError"
  by (simp add: total_variation_distance_def)

lemma xeb_mismatch: "fmdom e \<noteq> fmdom t \<Longrightarrow> compute_xeb e t n = Inl ValueError"
  by (simp add: compute_xeb_def)





lemma tvd_spec_zero_iff:
  assumes dom: "fmdom a = fmdom b"
  shows "tvd_spec a b = 0 \<longleftrightarrow> a = b"
proof
  assume z: "tvd_spec a b = 0"
  have "(\<Sum>key\<in>fset (fmdom a). \<bar>the (fmlookup a key) - the (fmlookup b key)\<bar>) = 0"
    using z by (simp add: tvd_spec_def)
  then have eq: "\<And>key. key |\<in>| fmdom a \<Longrightarrow> the (fmlookup a key) = the (fmlookup b key)"
    by (simp add: sum_nonneg_eq_0_iff)
  show "a = b"
  proof (rule fmap_ext)
    fix key
    show "fmlookup a key = fmlookup b key"
    proof (cases "key |\<in>| fmdom a")
      case True
      then obtain p q where "fmlookup a key = Some p" "fmlookup b key = Some q"
        using dom by (metis fmdomE)
      with eq[OF True] show ?thesis by simp
    next
      case False
      then show ?thesis using dom by (metis fmdom_notD)
    qed
  qed
next
  assume "a = b"
  then show "tvd_spec a b = 0" by (simp add: tvd_spec_def)
qed

text \<open>
  Claim C1, for fewer than 1024 qubits. For an empirical and a true distribution over
  the same keys and \<open>num_qubits < 1024\<close>, \<open>compute_xeb\<close> returns \<open>2 ^ num_qubits\<close>
  times the sum, over the keys of the true distribution, of true probability times
  empirical probability (0 for a missing empirical entry), minus 1. From 1024 qubits
  on, with at least one key, it raises \<^verbatim>\<open>OverflowError\<close> instead. For the 1-qubit
  distribution \<^verbatim>\<open>{"0": 1.0, "1": 0.0}\<close> against itself the score is 1, and for the
  uniform 2-qubit distribution against the empirical distribution concentrated on
  \<^verbatim>\<open>"00"\<close> it is 0.
\<close>
theorem compute_xeb_formula:
  "(fmdom e = fmdom t \<and> n < 1024 \<longrightarrow> compute_xeb e t n = Inr (xeb_spec e t n))
   \<and> (fmdom e = fmdom t \<and> 1024 \<le> n \<and> fmdom t \<noteq> {||} \<longrightarrow> compute_xeb e t n = Inl OverflowError)
   \<and> compute_xeb (fmap_of_list [(''0'', 1), (''1'', 0)]) (fmap_of_list [(''0'', 1), (''1'', 0)]) 1 = Inr 1
   \<and> compute_xeb (fmap_of_list [(''00'', 1), (''01'', 0), (''10'', 0), (''11'', 0)])
        (fmap_of_list [(''00'', 1/4), (''01'', 1/4), (''10'', 1/4), (''11'', 1/4)]) 2 = Inr 0"
proof (intro conjI impI)
  show "compute_xeb e t n = Inr (xeb_spec e t n)" if "fmdom e = fmdom t \<and> n < 1024"
    using that by (simp add: xeb_eq_spec)
  show "compute_xeb e t n = Inl OverflowError" if "fmdom e = fmdom t \<and> 1024 \<le> n \<and> fmdom t \<noteq> {||}"
    using that by (simp add: xeb_overflow)
  show "compute_xeb (fmap_of_list [(''0'', 1), (''1'', 0)]) (fmap_of_list [(''0'', 1), (''1'', 0)]) 1 = Inr 1"
    by (simp add: xeb_eq_spec xeb_spec_def fmdom_of_list)
  show "compute_xeb (fmap_of_list [(''00'', 1), (''01'', 0), (''10'', 0), (''11'', 0)])
        (fmap_of_list [(''00'', 1/4), (''01'', 1/4), (''10'', 1/4), (''11'', 1/4)]) 2 = Inr 0"
    by (simp add: xeb_eq_spec xeb_spec_def fmdom_of_list)
qed

theorem compute_xeb_formula_witness:
  "fmdom (fmap_of_list [(''0'', 1/4), (''1'', 3/4)]) = fmdom (fmap_of_list [(''0'', 1/2), (''1'', 1/2 :: real)])
   \<and> (1 :: int) < 1024
   \<and> compute_xeb (fmap_of_list [(''0'', 1/4), (''1'', 3/4)]) (fmap_of_list [(''0'', 1/2), (''1'', 1/2)]) 1 = Inr 0
   \<and> (1024 :: int) \<le> 1024
   \<and> fmdom (fmap_of_list [(''0'', 1/2), (''1'', 1/2 :: real)]) \<noteq> {||}
   \<and> compute_xeb (fmap_of_list [(''0'', 1/4), (''1'', 3/4)]) (fmap_of_list [(''0'', 1/2), (''1'', 1/2)]) 1024
       = Inl OverflowError"
  using compute_xeb_formula[of "fmap_of_list [(''0'', 1/4), (''1'', 3/4)]" "fmap_of_list [(''0'', 1/2), (''1'', 1/2)]" 1]
    compute_xeb_formula[of "fmap_of_list [(''0'', 1/4), (''1'', 3/4)]" "fmap_of_list [(''0'', 1/2), (''1'', 1/2)]" 1024]
  by (simp add: xeb_spec_def fmdom_of_list)

text \<open>
  Without the bound on the qubit count the formula is not what the code returns:
  on \<^verbatim>\<open>{"0": 1.0}\<close> against itself with 1024 qubits the product
  \<^verbatim>\<open>(2 ** 1024) * 1.0\<close> raises \<^verbatim>\<open>OverflowError\<close>.
\<close>
theorem compute_xeb_overflow_counterexample:
  "fmdom (fmupd ''0'' 1 fmempty :: distribution) = fmdom (fmupd ''0'' 1 fmempty :: distribution)
   \<and> compute_xeb (fmupd ''0'' 1 fmempty) (fmupd ''0'' 1 fmempty) 1024 = Inl OverflowError
   \<and> compute_xeb (fmupd ''0'' 1 fmempty) (fmupd ''0'' 1 fmempty) 1024
       \<noteq> Inr (xeb_spec (fmupd ''0'' 1 fmempty) (fmupd ''0'' 1 fmempty) 1024)"
  by (simp add: xeb_overflow)



text \<open>
  Claim C3, for fewer than 1024 qubits. \<open>total_variation_distance\<close> and
  \<open>compute_xeb\<close> raise \<^verbatim>\<open>ValueError\<close> exactly when the key sets of their two
  distributions differ. With the same keys \<open>total_variation_distance\<close> returns a
  number, and so does \<open>compute_xeb\<close> for \<open>num_qubits < 1024\<close>.
  \<^verbatim>\<open>{"00": 1.0}\<close> against \<^verbatim>\<open>{"0": 1.0}\<close> raises.
\<close>
theorem metrics_raise_iff_keys_differ:
  "(total_variation_distance a b = Inl ValueError \<longleftrightarrow> fmdom a \<noteq> fmdom b)
   \<and> (isl (total_variation_distance a b) \<longleftrightarrow> fmdom a \<noteq> fmdom b)
   \<and> (compute_xeb e t n = Inl ValueError \<longleftrightarrow> fmdom e \<noteq> fmdom t)
   \<and> (n < 1024 \<longrightarrow> (isl (compute_xeb e t n) \<longleftrightarrow> fmdom e \<noteq> fmdom t))
   \<and> total_variation_distance (fmap_of_list [(''00'', 1)]) (fmap_of_list [(''0'', 1)]) = Inl ValueError"
proof (intro conjI impI)
  show "total_variation_distance a b = Inl ValueError \<longleftrightarrow> fmdom a \<noteq> fmdom b"
    by (cases "fmdom a = fmdom b") (simp_all add: tvd_eq_spec tvd_mismatch)
  show "isl (total_variation_distance a b) \<longleftrightarrow> fmdom a \<noteq> fmdom b"
    by (cases "fmdom a = fmdom b") (simp_all add: tvd_eq_spec tvd_mismatch)
  show "compute_xeb e t n = Inl ValueError \<longleftrightarrow> fmdom e \<noteq> fmdom t"
  proof (cases "fmdom e = fmdom t")
    case True
    show ?thesis
    proof (cases "n < 1024 \<or> fmdom t = {||}")
      case True
      with \<open>fmdom e = fmdom t\<close> show ?thesis by (simp add: xeb_eq_spec)
    next
      case False
      with \<open>fmdom e = fmdom t\<close> show ?thesis by (simp add: xeb_overflow)
    qed
  next
    case False
    then show ?thesis by (simp add: xeb_mismatch)
  qed
  show "isl (compute_xeb e t n) \<longleftrightarrow> fmdom e \<noteq> fmdom t" if "n < 1024"
    using that by (cases "fmdom e = fmdom t") (simp_all add: xeb_eq_spec xeb_mismatch)
  show "total_variation_distance (fmap_of_list [(''00'', 1)]) (fmap_of_list [(''0'', 1)]) = Inl ValueError"
    by (simp add: tvd_mismatch fmdom_of_list)
qed

theorem metrics_raise_iff_keys_differ_witness:
  "(2 :: int) < 1024
   \<and> fmdom (fmap_of_list [(''0'', 1/2), (''1'', 1/2)]) = fmdom (fmap_of_list [(''0'', 1), (''1'', 0 :: real)])
   \<and> \<not> isl (compute_xeb (fmap_of_list [(''0'', 1/2), (''1'', 1/2)]) (fmap_of_list [(''0'', 1), (''1'', 0)]) 2)"
  using metrics_raise_iff_keys_differ[of "fmap_of_list [(''0'', 1/2), (''1'', 1/2)]"
      "fmap_of_list [(''0'', 1), (''1'', 0)]" "fmap_of_list [(''0'', 1/2), (''1'', 1/2)]"
      "fmap_of_list [(''0'', 1), (''1'', 0)]" 2]
  by (simp add: fmdom_of_list)

text \<open>
  With 1024 qubits \<open>compute_xeb\<close> raises although the keys are the same:
  \<^verbatim>\<open>{"0": 0.5, "1": 0.5}\<close> against \<^verbatim>\<open>{"0": 1.0, "1": 0.0}\<close>.
\<close>
theorem xeb_raises_on_equal_keys_counterexample:
  "fmdom (fmap_of_list [(''0'', 1/2), (''1'', 1/2)]) = fmdom (fmap_of_list [(''0'', 1), (''1'', 0 :: real)])
   \<and> isl (compute_xeb (fmap_of_list [(''0'', 1/2), (''1'', 1/2)]) (fmap_of_list [(''0'', 1), (''1'', 0)]) 1024)"
proof -
  have d: "fmdom (fmap_of_list [(''0'', 1/2), (''1'', 1/2)]) = fmdom (fmap_of_list [(''0'', 1), (''1'', 0 :: real)])"
    by (simp add: fmdom_of_list)
  have n: "fmdom (fmap_of_list [(''0'', 1), (''1'', 0 :: real)]) \<noteq> {||}"
    by (simp add: fmdom_of_list)
  have "compute_xeb (fmap_of_list [(''0'', 1/2), (''1'', 1/2)]) (fmap_of_list [(''0'', 1), (''1'', 0)]) 1024
      = Inl OverflowError"
    using d n by (intro xeb_overflow) simp_all
  with d show ?thesis by simp
qed


text \<open>
  Claim C5. For distributions over the same keys, \<open>total_variation_distance\<close>
  returns zero if and only if the two distributions are equal, entry by entry.
\<close>
theorem tvd_zero_iff_equal:
  assumes "fmdom a = fmdom b"
  shows "total_variation_distance a b = Inr 0 \<longleftrightarrow> a = b"
  using assms by (simp add: tvd_eq_spec tvd_spec_zero_iff)

theorem tvd_zero_iff_equal_witness:
  "fmdom (fmap_of_list [(''0'', 1), (''1'', 0)]) = fmdom (fmap_of_list [(''0'', 1/4), (''1'', 3/4 :: real)])
   \<and> total_variation_distance (fmap_of_list [(''0'', 1), (''1'', 0)]) (fmap_of_list [(''0'', 1/4), (''1'', 3/4)]) \<noteq> Inr 0
   \<and> fmap_of_list [(''0'', 1), (''1'', 0)] \<noteq> fmap_of_list [(''0'', 1/4), (''1'', 3/4 :: real)]"
proof -
  have d: "fmdom (fmap_of_list [(''0'', 1), (''1'', 0)]) = fmdom (fmap_of_list [(''0'', 1/4), (''1'', 3/4 :: real)])"
    by (simp add: fmdom_of_list)
  have s: "tvd_spec (fmap_of_list [(''0'', 1), (''1'', 0)]) (fmap_of_list [(''0'', 1/4), (''1'', 3/4)]) = 3/4"
    by (simp add: tvd_spec_def fmdom_of_list)
  have n: "total_variation_distance (fmap_of_list [(''0'', 1), (''1'', 0)]) (fmap_of_list [(''0'', 1/4), (''1'', 3/4)]) \<noteq> Inr 0"
    unfolding tvd_eq_spec[OF d] s by simp
  show ?thesis using tvd_zero_iff_equal[OF d] d n by simp
qed

text \<open>
  Claim C10. Two empty distributions have the same (empty) key set:
  \<open>total_variation_distance\<close> returns 0 on them and \<open>compute_xeb\<close> returns
  \<open>2 ^ n * 0 - 1 = - 1\<close> for every qubit count \<open>n\<close>, neither raising.
\<close>
theorem metrics_on_empty:
  "total_variation_distance fmempty fmempty = Inr 0 \<and> compute_xeb fmempty fmempty n = Inr (- 1)"
  by (simp add: tvd_eq_spec xeb_eq_spec tvd_spec_def xeb_spec_def)

section \<open>The distribution builder: helper lemmas\<close>

declare bin.simps [simp del]

lemma bits_value_snoc:
  "bits_value (s @ [c]) = 2 * bits_value s + (if c = CHR ''1'' then 1 else 0)"
  by (simp add: bits_value_def)

lemma bits_value_bit_char: "b < 2 \<Longrightarrow> bits_value [bit_char b] = b"
  by (auto simp: bits_value_def bit_char_def)

lemma bits_value_bin: "bits_value (bin i) = i"
proof (induction i rule: bin.induct)
  case (1 i)
  show ?case
  proof (cases "i < 2")
    case True
    then show ?thesis by (subst bin.simps) (simp add: bits_value_bit_char)
  next
    case False
    have low: "(if bit_char (i mod 2) = CHR ''1'' then 1 else 0) = i mod 2"
      by (cases "i mod 2 = 0") (auto simp: bit_char_def)
    have high: "bits_value (bin (i div 2)) = i div 2"
      using 1[OF False] .
    have "bits_value (bin i) = bits_value (bin (i div 2) @ [bit_char (i mod 2)])"
      using False by (subst bin.simps) simp
    also have "\<dots> = 2 * (i div 2) + i mod 2"
      unfolding bits_value_snoc low high ..
    also have "\<dots> = i" by simp
    finally show ?thesis .
  qed
qed

lemma bits_value_zeros: "bits_value (replicate k (CHR ''0'') @ s) = bits_value s"
proof -
  have "foldl (\<lambda>v c. 2 * v + (if c = CHR ''1'' then 1 else 0)) (0::nat) (replicate k (CHR ''0'')) = 0"
    by (induction k) simp_all
  then show ?thesis by (simp add: bits_value_def)
qed

lemma bits_value_format: "bits_value (format_0b i width) = i"
  by (simp add: format_0b_def bits_value_zeros bits_value_bin)

lemma length_bin: "i < 2 ^ n \<Longrightarrow> 0 < n \<Longrightarrow> length (bin i) \<le> n"
proof (induction i arbitrary: n rule: bin.induct)
  case (1 i)
  show ?case
  proof (cases "i < 2")
    case True
    then show ?thesis using "1.prems" by (subst bin.simps) simp
  next
    case False
    from "1.prems" obtain m where n: "n = Suc m" by (cases n) simp_all
    have m: "0 < m"
    proof (cases m)
      case 0
      with n "1.prems" False show ?thesis by simp
    next
      case (Suc k)
      then show ?thesis by simp
    qed
    have "i < 2 * 2 ^ m" using "1.prems" n by simp
    then have "i div 2 < 2 ^ m" by linarith
    from "1.IH"[OF False this m] have "length (bin (i div 2)) \<le> m" .
    then show ?thesis using False n by (subst bin.simps) simp
  qed
qed

lemma length_format: "i < 2 ^ n \<Longrightarrow> 0 < n \<Longrightarrow> length (format_0b i n) = n"
  using length_bin[of i n] by (simp add: format_0b_def)

lemma is_bitstring_bin: "is_bitstring (bin i)"
proof (induction i rule: bin.induct)
  case (1 i)
  show ?case
  proof (cases "i < 2")
    case True
    then show ?thesis by (subst bin.simps) (simp add: is_bitstring_def bit_char_def)
  next
    case False
    with 1 show ?thesis by (subst bin.simps) (simp add: is_bitstring_def bit_char_def)
  qed
qed

lemma is_bitstring_zeros: "is_bitstring (replicate k (CHR ''0''))"
  by (induction k) (simp_all add: is_bitstring_def)

lemma is_bitstring_append: "is_bitstring (s @ t) \<longleftrightarrow> is_bitstring s \<and> is_bitstring t"
  by (simp add: is_bitstring_def)

lemma is_bitstring_format: "is_bitstring (format_0b i n)"
  unfolding format_0b_def is_bitstring_append
  by (rule conjI) (rule is_bitstring_zeros, rule is_bitstring_bin)

lemma format_inj:
  assumes "format_0b i n = format_0b j n"
  shows "i = j"
proof -
  have "bits_value (format_0b i n) = bits_value (format_0b j n)"
    using assms by (rule arg_cong)
  then show ?thesis by (simp only: bits_value_format)
qed

lemma distinct_basis_states: "distinct (basis_states_of n)"
proof -
  have "inj_on (\<lambda>i. format_0b i n) {0..<2 ^ n}"
    by (rule inj_onI) (rule format_inj)
  then show ?thesis by (simp add: basis_states_of_def distinct_map)
qed

lemma length_basis_states: "length (basis_states_of n) = 2 ^ n"
  by (simp add: basis_states_of_def)

lemma nth_basis_states: "i < 2 ^ n \<Longrightarrow> basis_states_of n ! i = format_0b i n"
  by (simp add: basis_states_of_def)

lemma counting_order: "map bits_value (basis_states_of n) = [0..<2 ^ n]"
  unfolding basis_states_of_def map_map comp_def bits_value_format by simp

lemma fmlookup_foldl_upd:
  "fmlookup (foldl (\<lambda>d (k, v). fmupd k v d) m kvs) x =
     (case map_of (rev kvs) x of None \<Rightarrow> fmlookup m x | Some v \<Rightarrow> Some v)"
  by (induction kvs arbitrary: m) (auto simp: map_add_def split: option.splits)

lemma map_of_rev_distinct: "distinct (map fst kvs) \<Longrightarrow> map_of (rev kvs) = map_of kvs"
  by (rule map_of_inject_set[THEN iffD2]) (simp_all add: rev_map[symmetric])

lemma fmlookup_dict_of_pairs:
  "distinct (map fst kvs) \<Longrightarrow> fmlookup (dict_of_pairs kvs) = map_of kvs"
  by (rule ext) (simp add: dict_of_pairs_def fmlookup_foldl_upd map_of_rev_distinct split: option.splits)

lemma fmdom_dict_of_pairs:
  assumes "distinct (map fst kvs)"
  shows "fset (fmdom (dict_of_pairs kvs)) = set (map fst kvs)"
proof -
  have "fset (fmdom (dict_of_pairs kvs)) = dom (map_of kvs)"
    by (simp add: fmdom.rep_eq fmlookup_dict_of_pairs[OF assms])
  then show ?thesis by (simp add: dom_map_of_conv_image_fst)
qed

lemma sum_values_dict_of_pairs:
  assumes "distinct (map fst kvs)"
  shows "sum_values (dict_of_pairs kvs) = sum_list (map snd kvs)"
proof -
  have "sum_values (dict_of_pairs kvs) = (\<Sum>key\<in>set (map fst kvs). the (map_of kvs key))"
    by (simp only: sum_values_the fmdom_dict_of_pairs[OF assms] fmlookup_dict_of_pairs[OF assms])
  also have "\<dots> = sum_list (map (\<lambda>key. the (map_of kvs key)) (map fst kvs))"
    using assms by (rule sum.distinct_set_conv_list)
  also have "map (\<lambda>key. the (map_of kvs key)) (map fst kvs) = map snd kvs"
    using assms by (auto simp: comp_def)
  finally show ?thesis .
qed

lemma strip_final_idem: "strip_final busy (strip_final busy xs) = strip_final busy xs"
  by (induction busy xs rule: strip_final.induct) simp_all

lemma remove_final_measurements_idem:
  "remove_final_measurements (remove_final_measurements qc) = remove_final_measurements qc"
  by (simp add: remove_final_measurements_def strip_final_idem)

lemma num_qubits_remove_final_measurements:
  "qc_num_qubits (remove_final_measurements qc) = qc_num_qubits qc"
  by (simp add: remove_final_measurements_def)

lemma ctd_circuit: "snd (calculate_true_distribution sv qc) = remove_final_measurements qc"
  by (simp add: calculate_true_distribution_def Let_def split: sum.splits)

lemma ctd_stripped:
  "calculate_true_distribution sv (remove_final_measurements qc) = calculate_true_distribution sv qc"
  by (simp add: calculate_true_distribution_def remove_final_measurements_idem)

lemma pairs_zip:
  "length bs = length ps \<Longrightarrow> true_distribution_items bs ps = zip bs ps"
  unfolding true_distribution_items_def by (rule nth_equalityI) simp_all

lemma ctd_result:
  assumes "sv (remove_final_measurements qc) = Inr probabilities"
    and "length probabilities = 2 ^ qc_num_qubits qc"
  shows "calculate_true_distribution sv qc =
     (Inr (dict_of_pairs (zip (basis_states_of (qc_num_qubits qc)) probabilities)),
      remove_final_measurements qc)"
proof -
  have len: "length (basis_states_of (qc_num_qubits qc)) = length probabilities"
    using assms(2) by (simp add: length_basis_states)
  show ?thesis
    using assms(1) len
    by (simp add: calculate_true_distribution_def Let_def
        num_qubits_remove_final_measurements pairs_zip)
qed

lemma bin_0: "bin 0 = ''0''"
  by (subst bin.simps) (simp add: bit_char_def)

lemma basis_states_of_0: "basis_states_of 0 = [''0'']"
proof -
  have "format_0b 0 0 = ''0''"
    unfolding format_0b_def bin_0 by simp
  then show ?thesis
    by (simp add: basis_states_of_def)
qed

section \<open>The validator, the builder and the drivers\<close>

text \<open>
  Claim C6, as the code has it. \<open>check_distribution_normalization\<close> returns true
  exactly when the sum of the values is within \<open>atol + rtol * \<bar>1\<bar> = 1e-8 + 1e-5\<close>
  of 1, the default absolute and relative tolerance of \<^verbatim>\<open>numpy.isclose\<close>
  together; otherwise it prints the warning and returns false. It is a total function
  of the distribution: it raises nothing and returns no changed dictionary.
\<close>
theorem check_normalization_tolerance:
  "check_distribution_normalization d =
     (if \<bar>sum_values d - 1\<bar> \<le> 1 / 10 ^ 8 + 1 / 10 ^ 5
      then (True, []) else (False, [Warning_total (sum_values d)]))"
  by (simp add: check_distribution_normalization_def isclose_def atol_def rtol_def)

text \<open>
  The tolerance is not \<open>1e-8\<close> absolute: the one-entry distribution
  \<^verbatim>\<open>{"0": 1.000001}\<close> sums to 1 plus \<open>1e-6\<close>, a hundred times \<open>1e-8\<close>, and is
  accepted without a warning.
\<close>
theorem check_normalization_counterexample:
  "check_distribution_normalization (fmupd ''0'' (1000001 / 1000000) fmempty) = (True, [])
   \<and> \<not> \<bar>sum_values (fmupd ''0'' (1000001 / 1000000) fmempty) - 1\<bar> \<le> 1 / 10 ^ 8"
  by (simp add: check_distribution_normalization_def isclose_def atol_def rtol_def
      sum_values_the)

text \<open>
  For one qubit or more the builder does what claim C7 says. Let the circuit have
  \<open>n > 0\<close> qubits and let the simulation of the stripped circuit return \<open>2 ^ n\<close>
  probabilities. Then \<open>calculate_true_distribution\<close> returns the dictionary of the
  items \<open>(format(i, '0nb'), probabilities[i])\<close>, inserted for \<open>i = 0, ..., 2 ^ n - 1\<close>
  in this order: the keys in insertion order read \<open>0, 1, ..., 2 ^ n - 1\<close> in binary.
  The dictionary has exactly \<open>2 ^ n\<close> keys, each of them \<open>n\<close> characters long and made
  of \<^verbatim>\<open>0\<close> and \<^verbatim>\<open>1\<close>, the key of \<open>i\<close> holds the \<open>i\<close>-th probability, and the values
  sum to what the probabilities of the simulation sum to.
\<close>
lemma true_distribution_complete:
  assumes "0 < qc_num_qubits qc"
    and "sv (remove_final_measurements qc) = Inr probabilities"
    and "length probabilities = 2 ^ qc_num_qubits qc"
  shows "\<exists>d. fst (calculate_true_distribution sv qc) = Inr d
     \<and> d = dict_of_pairs (true_distribution_items (basis_states_of (qc_num_qubits qc)) probabilities)
     \<and> map fst (true_distribution_items (basis_states_of (qc_num_qubits qc)) probabilities)
         = basis_states_of (qc_num_qubits qc)
     \<and> map bits_value (basis_states_of (qc_num_qubits qc)) = [0..<2 ^ qc_num_qubits qc]
     \<and> fcard (fmdom d) = 2 ^ qc_num_qubits qc
     \<and> fset (fmdom d) = (\<lambda>i. format_0b i (qc_num_qubits qc)) ` {0..<2 ^ qc_num_qubits qc}
     \<and> (\<forall>i<2 ^ qc_num_qubits qc.
           fmlookup d (format_0b i (qc_num_qubits qc)) = Some (probabilities ! i)
           \<and> length (format_0b i (qc_num_qubits qc)) = qc_num_qubits qc
           \<and> is_bitstring (format_0b i (qc_num_qubits qc))
           \<and> bits_value (format_0b i (qc_num_qubits qc)) = i)
     \<and> sum_values d = sum_list probabilities"
proof -
  let ?n = "qc_num_qubits qc"
  let ?bs = "basis_states_of ?n"
  let ?d = "dict_of_pairs (zip ?bs probabilities)"
  have len: "length ?bs = length probabilities"
    using assms(3) by (simp add: length_basis_states)
  have items: "true_distribution_items ?bs probabilities = zip ?bs probabilities"
    using len by (rule pairs_zip)
  have dist: "distinct (map fst (zip ?bs probabilities))"
    using len by (simp add: distinct_basis_states)
  have res: "fst (calculate_true_distribution sv qc) = Inr ?d"
    using ctd_result[of sv qc probabilities, OF assms(2,3)] by simp
  have keys: "fset (fmdom ?d) = set ?bs"
    using fmdom_dict_of_pairs[OF dist] len by simp
  have img: "set ?bs = (\<lambda>i. format_0b i ?n) ` {0..<2 ^ ?n}"
    by (simp add: basis_states_of_def)
  have card: "fcard (fmdom ?d) = 2 ^ ?n"
    using distinct_card[OF distinct_basis_states, of ?n]
    by (simp add: fcard.rep_eq keys length_basis_states)
  have look: "fmlookup ?d (format_0b i ?n) = Some (probabilities ! i)" if "i < 2 ^ ?n" for i
  proof -
    have "map_of (zip ?bs probabilities) (?bs ! i) = Some (probabilities ! i)"
    proof (rule map_of_zip_nth)
      show "length ?bs = length probabilities" by (rule len)
      show "distinct ?bs" by (rule distinct_basis_states)
      show "i < length probabilities" using that assms(3) by simp
    qed
    then show ?thesis
      using that by (simp add: fmlookup_dict_of_pairs[OF dist] nth_basis_states)
  qed
  have total: "sum_values ?d = sum_list probabilities"
    using sum_values_dict_of_pairs[OF dist] len by simp
  have each: "\<forall>i<2 ^ ?n. fmlookup ?d (format_0b i ?n) = Some (probabilities ! i)
           \<and> length (format_0b i ?n) = ?n
           \<and> is_bitstring (format_0b i ?n)
           \<and> bits_value (format_0b i ?n) = i"
    using assms(1) by (simp add: look length_format is_bitstring_format bits_value_format)
  show ?thesis
  proof (intro exI[of _ ?d] conjI)
    show "fst (calculate_true_distribution sv qc) = Inr ?d" by (rule res)
    show "?d = dict_of_pairs (true_distribution_items ?bs probabilities)"
      by (simp only: items)
    show "map fst (true_distribution_items ?bs probabilities) = ?bs"
      using len by (simp add: items)
    show "map bits_value ?bs = [0..<2 ^ ?n]"
      by (rule counting_order)
    show "fcard (fmdom ?d) = 2 ^ ?n" by (rule card)
    show "fset (fmdom ?d) = (\<lambda>i. format_0b i ?n) ` {0..<2 ^ ?n}"
      using keys img by (rule trans)
    show "\<forall>i<2 ^ ?n. fmlookup ?d (format_0b i ?n) = Some (probabilities ! i)
           \<and> length (format_0b i ?n) = ?n
           \<and> is_bitstring (format_0b i ?n)
           \<and> bits_value (format_0b i ?n) = i" by (rule each)
    show "sum_values ?d = sum_list probabilities" by (rule total)
  qed
qed

text \<open>
  Claim C7 on the circuit without qubits. Its statevector has the single probability
  1, and the claim asks for one entry whose key has no character. The builder pads
  with \<^verbatim>\<open>format(0, '00b')\<close>, which is \<^verbatim>\<open>'0'\<close>: the dictionary it returns is
  \<^verbatim>\<open>{'0': 1.0}\<close>, with a key of one character.
\<close>
theorem builder_zero_qubits:
  "zero_qubit_simulator (remove_final_measurements \<lparr>qc_num_qubits = 0, qc_data = []\<rparr>) = Inr [1]
   \<and> length [1 :: real] = 2 ^ qc_num_qubits \<lparr>qc_num_qubits = 0, qc_data = []\<rparr>
   \<and> sum_list [1 :: real] = 1
   \<and> fst (calculate_true_distribution zero_qubit_simulator \<lparr>qc_num_qubits = 0, qc_data = []\<rparr>)
       = Inr (fmupd ''0'' 1 fmempty)
   \<and> length ''0'' \<noteq> qc_num_qubits \<lparr>qc_num_qubits = 0, qc_data = []\<rparr>"
proof -
  have sim: "zero_qubit_simulator (remove_final_measurements \<lparr>qc_num_qubits = 0, qc_data = []\<rparr>) = Inr [1]"
    by (simp add: zero_qubit_simulator_def)
  have len: "length [1 :: real] = 2 ^ qc_num_qubits \<lparr>qc_num_qubits = 0, qc_data = []\<rparr>"
    by simp
  have "fst (calculate_true_distribution zero_qubit_simulator \<lparr>qc_num_qubits = 0, qc_data = []\<rparr>)
      = Inr (dict_of_pairs (zip (basis_states_of 0) [1]))"
    using ctd_result[of zero_qubit_simulator "\<lparr>qc_num_qubits = 0, qc_data = []\<rparr>" "[1]", OF sim len]
    by simp
  also have "dict_of_pairs (zip (basis_states_of 0) [1]) = fmupd ''0'' 1 fmempty"
    by (simp add: basis_states_of_0 dict_of_pairs_def)
  finally have res: "fst (calculate_true_distribution zero_qubit_simulator \<lparr>qc_num_qubits = 0, qc_data = []\<rparr>)
      = Inr (fmupd ''0'' 1 fmempty)" .
  show ?thesis using sim len res by simp
qed

text \<open>
  Claim C8. \<open>calculate_true_distribution\<close> leaves the caller's circuit stripped of
  its final measurements (whether or not the simulation raises), stripping the
  circuit it leaves changes nothing, and a second call on that circuit returns the
  same result and the same circuit. On the circuit \<^verbatim>\<open>h(0); measure(0, 0)\<close> the
  measurement is gone after the call, whatever the simulation returns.
\<close>
theorem builder_strips_in_place_idempotent:
  "snd (calculate_true_distribution sv qc) = remove_final_measurements qc
   \<and> remove_final_measurements (snd (calculate_true_distribution sv qc))
       = snd (calculate_true_distribution sv qc)
   \<and> calculate_true_distribution sv (snd (calculate_true_distribution sv qc))
       = calculate_true_distribution sv qc
   \<and> snd (calculate_true_distribution sv
             \<lparr>qc_num_qubits = 1, qc_data = [Gate ''h'' [0], Measure 0 0]\<rparr>)
       = \<lparr>qc_num_qubits = 1, qc_data = [Gate ''h'' [0]]\<rparr>"
proof (intro conjI)
  show "snd (calculate_true_distribution sv qc) = remove_final_measurements qc"
    by (rule ctd_circuit)
  show "remove_final_measurements (snd (calculate_true_distribution sv qc))
       = snd (calculate_true_distribution sv qc)"
    by (simp only: ctd_circuit remove_final_measurements_idem)
  show "calculate_true_distribution sv (snd (calculate_true_distribution sv qc))
       = calculate_true_distribution sv qc"
    by (simp only: ctd_circuit ctd_stripped)
  show "snd (calculate_true_distribution sv
             \<lparr>qc_num_qubits = 1, qc_data = [Gate ''h'' [0], Measure 0 0]\<rparr>)
       = \<lparr>qc_num_qubits = 1, qc_data = [Gate ''h'' [0]]\<rparr>"
    by (simp add: ctd_circuit remove_final_measurements_def)
qed

text \<open>
  Claim C9. \<open>xeb_truedist_empdist_ideal\<close> does not depend on its \<open>noise_rate\<close>
  argument: with the collaborators, the other arguments and the state of the world
  fixed, any two rates give the same outcome, and that outcome is the one of
  \<open>xeb_truedist_empdist_noisy\<close> at rate 0, the rate the noise model is built with.
\<close>
theorem ideal_driver_ignores_noise_rate:
  "xeb_truedist_empdist_ideal ext num_qubits noise_rate1 shots depth w
     = xeb_truedist_empdist_ideal ext num_qubits noise_rate2 shots depth w
   \<and> xeb_truedist_empdist_ideal ext num_qubits noise_rate shots depth w
     = xeb_truedist_empdist_noisy ext num_qubits 0 shots depth w"
  by (simp add: xeb_truedist_empdist_ideal_def xeb_truedist_empdist_noisy_def)

end
